theory Spec2Isabelle
  imports Main
begin

section \<open>Python strings\<close>

text \<open>
  A Python \<^verbatim>\<open>str\<close> is modelled as a \<^typ>\<open>string\<close>, one \<^typ>\<open>char\<close> per code point;
  the model covers the code points 0 to 255. The character classes are those of
  \<^verbatim>\<open>str.isspace\<close> and \<^verbatim>\<open>str.isalnum\<close> on that range.
\<close>

definition isspace :: "char \<Rightarrow> bool" where
  "isspace c =
     (let n = (of_char c :: nat)
      in (9 \<le> n \<and> n \<le> 13) \<or> (28 \<le> n \<and> n \<le> 32) \<or> n = 133 \<or> n = 160)"

definition isalnum :: "char \<Rightarrow> bool" where
  "isalnum c =
     (let n = (of_char c :: nat)
      in (48 \<le> n \<and> n \<le> 57) \<or> (65 \<le> n \<and> n \<le> 90) \<or> (97 \<le> n \<and> n \<le> 122)
         \<or> n = 170 \<or> n = 178 \<or> n = 179 \<or> n = 181 \<or> n = 185 \<or> n = 186
         \<or> (188 \<le> n \<and> n \<le> 190) \<or> (192 \<le> n \<and> n \<le> 214)
         \<or> (216 \<le> n \<and> n \<le> 246) \<or> (248 \<le> n \<and> n \<le> 255))"

text \<open>\<^verbatim>\<open>s.strip()\<close>: leading and trailing whitespace removed.\<close>

definition strip :: "string \<Rightarrow> string" where
  "strip s = rev (dropWhile isspace (rev (dropWhile isspace s)))"

text \<open>\<^verbatim>\<open>s[-n:]\<close>: the last \<open>n\<close> characters, the whole string when it is shorter.\<close>

definition last_chars :: "nat \<Rightarrow> string \<Rightarrow> string" where
  "last_chars n s = drop (length s - n) s"

text \<open>\<^verbatim>\<open>s.split()\<close>: the maximal runs of non-whitespace characters, in order.\<close>

function split_ws :: "string \<Rightarrow> string list" where
  "split_ws [] = []"
| "split_ws (c # cs) =
     (if isspace c then split_ws cs
      else (c # takeWhile (\<lambda>x. \<not> isspace x) cs) # split_ws (dropWhile (\<lambda>x. \<not> isspace x) cs))"
  by pat_completeness auto
termination
  by (relation "measure length") (auto simp: length_dropWhile_le less_Suc_eq_le)

text \<open>A word: not empty and free of whitespace.\<close>

definition is_word :: "string \<Rightarrow> bool" where
  "is_word w = (w \<noteq> [] \<and> list_all (\<lambda>c. \<not> isspace c) w)"

text \<open>\<^verbatim>\<open>sep.join(ws)\<close>.\<close>

fun join :: "string \<Rightarrow> string list \<Rightarrow> string" where
  "join sep [] = []"
| "join sep [w] = w"
| "join sep (w # v # ws) = w @ sep @ join sep (v # ws)"

text \<open>\<^verbatim>\<open>str(i)\<close> of an integer: decimal digits, a minus sign when negative.\<close>

definition digit_char :: "nat \<Rightarrow> char" where
  "digit_char d = ''0123456789'' ! d"

fun str_nat :: "nat \<Rightarrow> string" where
  "str_nat n = (if n < 10 then [digit_char n] else str_nat (n div 10) @ [digit_char (n mod 10)])"

definition py_str :: "int \<Rightarrow> string" where
  "py_str i = (if i < 0 then CHR ''-'' # str_nat (nat (- i)) else str_nat (nat i))"

text \<open>\<^verbatim>\<open>s.zfill(width)\<close>: zeros on the left up to the width, after a leading sign.\<close>

definition zfill :: "nat \<Rightarrow> string \<Rightarrow> string" where
  "zfill width s =
     (if width \<le> length s then s
      else (case s of
              c # cs \<Rightarrow>
                if c = CHR ''+'' \<or> c = CHR ''-''
                then c # replicate (width - length s) CHR ''0'' @ cs
                else replicate (width - length s) CHR ''0'' @ s
            | [] \<Rightarrow> replicate width CHR ''0''))"

text \<open>The number a string of decimal digits denotes.\<close>

definition digit_value :: "char \<Rightarrow> nat" where
  "digit_value c = of_char c - 48"

definition decimal_value :: "string \<Rightarrow> nat" where
  "decimal_value s = foldl (\<lambda>a c. 10 * a + digit_value c) 0 s"

section \<open>The manager's state\<close>

text \<open>
  \<^verbatim>\<open>ZabbixInventoryManager\<close> keeps \<^verbatim>\<open>self.counter\<close> and the dictionary
  \<^verbatim>\<open>self.hostname_counters\<close>; the constructor sets them to 1 and \<^verbatim>\<open>{}\<close>.
\<close>

record manager =
  counter :: int
  hostname_counters :: "string \<rightharpoonup> int"

definition init_manager :: manager where
  "init_manager = \<lparr>counter = 1, hostname_counters = Map.empty\<rparr>"

subsection \<open>\<^verbatim>\<open>generate_identifier\<close>\<close>

text \<open>A string is truthy when it is not empty.\<close>

definition generate_identifier :: "string \<Rightarrow> string \<Rightarrow> manager \<Rightarrow> string \<times> manager" where
  "generate_identifier serial_number mac_address self =
     (if serial_number \<noteq> [] \<and> serial_number \<noteq> ''UNKNOWN''
      then (''SN'' @ last_chars 4 (strip serial_number), self)
      else if mac_address \<noteq> [] \<and> mac_address \<noteq> ''UNKNOWN''
      then (''MC'' @ last_chars 4 (strip mac_address), self)
      else (''DEV'' @ zfill 4 (py_str (counter self)),
            self\<lparr>counter := counter self + 1\<rparr>))"

text \<open>The condition of the last branch: neither a serial number nor a MAC.\<close>

definition lacks_serial_and_mac :: "string \<times> string \<Rightarrow> bool" where
  "lacks_serial_and_mac p =
     (case p of (serial_number, mac_address) \<Rightarrow>
        (serial_number = [] \<or> serial_number = ''UNKNOWN'')
        \<and> (mac_address = [] \<or> mac_address = ''UNKNOWN''))"

subsection \<open>\<^verbatim>\<open>generate_unique_hostname\<close>\<close>

definition generate_unique_hostname :: "string \<Rightarrow> manager \<Rightarrow> string \<times> manager" where
  "generate_unique_hostname base_hostname self =
     (case hostname_counters self base_hostname of
        None \<Rightarrow>
          (base_hostname,
           self\<lparr>hostname_counters := (hostname_counters self)(base_hostname \<mapsto> 1)\<rparr>)
      | Some count \<Rightarrow>
          (base_hostname @ ''-'' @ py_str count,
           self\<lparr>hostname_counters := (hostname_counters self)(base_hostname \<mapsto> count + 1)\<rparr>))"

text \<open>Successive calls on the same manager, as the processing loop makes them.\<close>

fun identify_all :: "(string \<times> string) list \<Rightarrow> manager \<Rightarrow> string list \<times> manager" where
  "identify_all [] self = ([], self)"
| "identify_all ((serial_number, mac_address) # rest) self =
     (let (identifier, self') = generate_identifier serial_number mac_address self;
          (identifiers, self'') = identify_all rest self'
      in (identifier # identifiers, self''))"

fun allocate_all :: "string list \<Rightarrow> manager \<Rightarrow> string list \<times> manager" where
  "allocate_all [] self = ([], self)"
| "allocate_all (base_hostname # rest) self =
     (let (hostname, self') = generate_unique_hostname base_hostname self;
          (hostnames, self'') = allocate_all rest self'
      in (hostname # hostnames, self''))"

section \<open>Cleaning\<close>

subsection \<open>\<^verbatim>\<open>clean_csv\<close>\<close>

text \<open>
  The rows are those \<^verbatim>\<open>csv.reader\<close> yields. The loop keeps a row when one of its
  cells is not blank, strips every cell and keeps the first 8 cells.
\<close>

definition any_cell :: "string list \<Rightarrow> bool" where
  "any_cell row = list_ex (\<lambda>cell. strip cell \<noteq> []) row"

fun cleaned_rows :: "string list list \<Rightarrow> string list list" where
  "cleaned_rows [] = []"
| "cleaned_rows (row # rest) =
     (if any_cell row then take 8 (map strip row) # cleaned_rows rest
      else cleaned_rows rest)"

text \<open>
  A cell of a data frame is a string or missing (\<open>None\<close>). \<^verbatim>\<open>pd.DataFrame\<close> pads
  the rows to the longest one with missing cells and raises when that length is not the
  number of column names; \<^verbatim>\<open>cleaned_rows[0]\<close> raises on an empty list. Every
  exception makes \<^verbatim>\<open>clean_csv\<close> return \<^verbatim>\<open>None\<close>.
\<close>

type_synonym cell = "string option"

record data_frame =
  columns :: "string list"
  data :: "cell list list"

definition pad_row :: "nat \<Rightarrow> string list \<Rightarrow> cell list" where
  "pad_row n row = map Some row @ replicate (n - length row) None"

definition new_data_frame :: "string list list \<Rightarrow> string list \<Rightarrow> data_frame option" where
  "new_data_frame body cols =
     (if body = [] then Some \<lparr>columns = cols, data = []\<rparr>
      else if fold max (map length body) 0 = length cols
      then Some \<lparr>columns = cols, data = map (pad_row (length cols)) body\<rparr>
      else None)"

definition str_strip :: "data_frame \<Rightarrow> data_frame" where
  "str_strip df = df\<lparr>data := map (map (map_option strip)) (data df)\<rparr>"

definition dropna_all :: "data_frame \<Rightarrow> data_frame" where
  "dropna_all df = df\<lparr>data := filter (list_ex (\<lambda>c. c \<noteq> None)) (data df)\<rparr>"

definition clean_csv :: "string list list \<Rightarrow> data_frame option" where
  "clean_csv rows =
     (case cleaned_rows rows of
        [] \<Rightarrow> None
      | header # body \<Rightarrow>
          (case new_data_frame body (take 8 header) of
             None \<Rightarrow> None
           | Some df \<Rightarrow> Some (dropna_all (str_strip df))))"

subsection \<open>\<^verbatim>\<open>read_inventory_csv\<close>\<close>

text \<open>
  \<^verbatim>\<open>pd.read_csv(file_path, usecols=range(8), dtype=str)\<close> yields rows of 8 cells, which
  the function names; the argument is its outcome (\<open>None\<close> when it raises, and then the
  function returns \<^verbatim>\<open>None\<close>).
\<close>

record 'a inventory_row =
  sl_no :: 'a
  team :: 'a
  device_model :: 'a
  s_n :: 'a
  mac_id :: 'a
  condition :: 'a
  assigned_to :: 'a
  owner :: 'a

definition clean_value :: "cell \<Rightarrow> string" where
  "clean_value v =
     (case v of
        None \<Rightarrow> []
      | Some s \<Rightarrow> (let cleaned = join '' '' (split_ws s) in if cleaned \<noteq> [] then cleaned else []))"

text \<open>A cell that is missing or holds whitespace only.\<close>

definition is_blank :: "cell \<Rightarrow> bool" where
  "is_blank v = (case v of None \<Rightarrow> True | Some s \<Rightarrow> list_all isspace s)"

text \<open>\<^verbatim>\<open>lambda x: x if x else default\<close>.\<close>

definition or_default :: "string \<Rightarrow> string \<Rightarrow> string" where
  "or_default dflt x = (if x \<noteq> [] then x else dflt)"

definition clean_row :: "cell inventory_row \<Rightarrow> string inventory_row" where
  "clean_row r =
     \<lparr>sl_no = clean_value (sl_no r),
      team = or_default ''Inventory'' (clean_value (team r)),
      device_model = or_default ''Unknown Device'' (clean_value (device_model r)),
      s_n = or_default ''UNKNOWN'' (clean_value (s_n r)),
      mac_id = or_default ''UNKNOWN'' (clean_value (mac_id r)),
      condition = or_default ''Unknown'' (clean_value (condition r)),
      assigned_to = or_default ''Unassigned'' (clean_value (assigned_to r)),
      owner = or_default ''Unassigned'' (clean_value (owner r))\<rparr>"

definition row_values :: "'a inventory_row \<Rightarrow> 'a list" where
  "row_values r =
     [sl_no r, team r, device_model r, s_n r, mac_id r, condition r, assigned_to r, owner r]"

text \<open>\<^verbatim>\<open>any(row.str.strip() != '')\<close>.\<close>

definition any_value :: "string inventory_row \<Rightarrow> bool" where
  "any_value r = list_ex (\<lambda>x. strip x \<noteq> []) (row_values r)"

definition read_inventory_csv ::
  "cell inventory_row list option \<Rightarrow> string inventory_row list option" where
  "read_inventory_csv parsed =
     (case parsed of
        None \<Rightarrow> None
      | Some df \<Rightarrow> Some (filter any_value (map clean_row df)))"

section \<open>Synchronisation\<close>

subsection \<open>The remote service\<close>

text \<open>
  What the service answers to one request: \<^verbatim>\<open>requests.post\<close> or the decoding of the
  answer raises; the status is not 200; the answer has no (or an empty) \<^verbatim>\<open>result\<close>;
  or it has a result, of which the model keeps the identifiers it lists. A \<open>remote\<close>
  holds the answers to the requests made for one record.
\<close>

datatype response = Raises | Status_Not_200 | No_Result | Result "string list"

record remote =
  hostgroup_get :: response
  hostgroup_create :: response
  host_create :: response

text \<open>\<^verbatim>\<open>create_group\<close>: \<^verbatim>\<open>result['result']['groupids'][0]\<close> raises on an empty list.\<close>

definition create_group :: "remote \<Rightarrow> string option" where
  "create_group srv =
     (case hostgroup_create srv of
        Result (group_id # _) \<Rightarrow> Some group_id
      | _ \<Rightarrow> None)"

definition get_group_id :: "remote \<Rightarrow> string option" where
  "get_group_id srv =
     (case hostgroup_get srv of
        Raises \<Rightarrow> None
      | Status_Not_200 \<Rightarrow> None
      | No_Result \<Rightarrow> create_group srv
      | Result [] \<Rightarrow> create_group srv
      | Result (group_id # _) \<Rightarrow> Some group_id)"

subsection \<open>\<^verbatim>\<open>create_or_update_host\<close>\<close>

definition base_hostname_of :: "string \<Rightarrow> string \<Rightarrow> string" where
  "base_hostname_of model identifier =
     filter (\<lambda>c. isalnum c \<or> c \<in> set ''-_.'')
       (map (\<lambda>c. if c = CHR '' '' then CHR ''-'' else c) model @ ''-'' @ identifier)"

text \<open>The steps before the first request: identifier, base hostname, unique hostname.\<close>

definition assign_hostname :: "string inventory_row \<Rightarrow> manager \<Rightarrow> string \<times> manager" where
  "assign_hostname host_data self =
     (let (identifier, self') = generate_identifier (s_n host_data) (mac_id host_data) self
      in generate_unique_hostname (base_hostname_of (device_model host_data) identifier) self')"

text \<open>The requests: the group, then \<^verbatim>\<open>host.create\<close>; an exception gives \<^verbatim>\<open>False\<close>.\<close>

definition submit_host :: "remote \<Rightarrow> bool" where
  "submit_host srv =
     (case get_group_id srv of
        None \<Rightarrow> False
      | Some group_id \<Rightarrow>
          if group_id = [] then False
          else (case host_create srv of
                  Result _ \<Rightarrow> True
                | _ \<Rightarrow> False))"

definition create_or_update_host ::
  "string inventory_row \<Rightarrow> remote \<Rightarrow> manager \<Rightarrow> bool \<times> manager" where
  "create_or_update_host host_data srv self =
     (let (hostname, self') = assign_hostname host_data self
      in (submit_host srv, self'))"

subsection \<open>\<^verbatim>\<open>main\<close>\<close>

record summary =
  success_count :: int
  failed_count :: int
  total_count :: int

fun process_devices ::
  "(string inventory_row \<times> remote) list \<Rightarrow> manager \<Rightarrow> int \<Rightarrow> int \<Rightarrow> int \<times> int \<times> manager" where
  "process_devices [] self success failed = (success, failed, self)"
| "process_devices ((row, srv) # rest) self success failed =
     (let (ok, self') = create_or_update_host row srv self
      in if ok then process_devices rest self' (success + 1) failed
         else process_devices rest self' success (failed + 1))"

text \<open>
  \<^verbatim>\<open>main\<close> returns early when cleaning fails, when there is no token and when reading
  fails: \<open>None\<close>. Otherwise it processes every record, \<open>srv i\<close> answering the requests
  of record \<open>i\<close>.
\<close>

definition main ::
  "string list list \<Rightarrow> string option \<Rightarrow> cell inventory_row list option \<Rightarrow> (nat \<Rightarrow> remote)
     \<Rightarrow> summary option" where
  "main rows auth_token parsed srv =
     (case clean_csv rows of
        None \<Rightarrow> None
      | Some cleaned_df \<Rightarrow>
          if auth_token = None \<or> auth_token = Some [] then None
          else (case read_inventory_csv parsed of
                  None \<Rightarrow> None
                | Some inventory_data \<Rightarrow>
                    (let (success, failed, self) =
                           process_devices
                             (zip inventory_data (map srv [0..<length inventory_data]))
                             init_manager 0 0
                     in Some \<lparr>success_count = success, failed_count = failed,
                              total_count = int (length inventory_data)\<rparr>)))"

section \<open>Whitespace normalisation\<close>

lemma split_ws_words: "list_all is_word (split_ws s)"
proof (induction s rule: split_ws.induct)
  case 1
  show ?case by simp
next
  case (2 c cs)
  have "list_all (\<lambda>x. \<not> isspace x) (takeWhile (\<lambda>x. \<not> isspace x) cs)"
    by (auto simp: list_all_iff dest: set_takeWhileD)
  with 2 show ?case by (simp add: is_word_def)
qed

lemma clean_value_Some: "clean_value (Some s) = join '' '' (split_ws s)"
  by (simp add: clean_value_def Let_def)

lemma join_words_ends:
  "list_all is_word ws \<Longrightarrow> ws \<noteq> [] \<Longrightarrow>
     join '' '' ws \<noteq> [] \<and> \<not> isspace (hd (join '' '' ws)) \<and> \<not> isspace (last (join '' '' ws))"
proof (induction "'' ''" ws rule: join.induct)
  case 1
  then show ?case by simp
next
  case (2 w)
  then show ?case by (cases w) (auto simp: is_word_def list_all_iff)
next
  case (3 w v ws)
  then show ?case by (cases w) (auto simp: is_word_def list_all_iff)
qed

lemma strip_id:
  assumes "s = [] \<or> (\<not> isspace (hd s) \<and> \<not> isspace (last s))"
  shows "strip s = s"
proof (cases s)
  case Nil
  then show ?thesis by (simp add: strip_def)
next
  case (Cons c cs)
  with assms have h: "\<not> isspace (hd s)" and l: "\<not> isspace (last s)" by auto
  have 1: "dropWhile isspace s = s" using h Cons by simp
  have "hd (rev s) = last s" using Cons by (simp add: hd_rev)
  then have 2: "dropWhile isspace (rev s) = rev s"
    using l by (simp add: dropWhile_eq_self_iff)
  show ?thesis by (simp add: strip_def 1 2)
qed

lemma strip_clean_value: "strip (clean_value v) = clean_value v"
proof (cases v)
  case None
  then show ?thesis by (simp add: clean_value_def strip_def)
next
  case (Some s)
  show ?thesis
  proof (cases "split_ws s = []")
    case True
    then show ?thesis using Some by (simp add: clean_value_Some strip_def)
  next
    case False
    then have "strip (join '' '' (split_ws s)) = join '' '' (split_ws s)"
      using join_words_ends [OF split_ws_words False] by (intro strip_id) simp
    then show ?thesis using Some by (simp add: clean_value_Some)
  qed
qed

lemma split_ws_Nil_iff: "split_ws s = [] \<longleftrightarrow> list_all isspace s"
  by (induction s rule: split_ws.induct) simp_all

lemma join_Nil_iff: "list_all is_word ws \<Longrightarrow> join sep ws = [] \<longleftrightarrow> ws = []"
  by (induction sep ws rule: join.induct) (simp_all add: is_word_def)

lemma clean_value_Nil_iff: "clean_value v = [] \<longleftrightarrow> is_blank v"
proof (cases v)
  case None
  then show ?thesis by (simp add: clean_value_def is_blank_def)
next
  case (Some s)
  then show ?thesis
    by (simp add: clean_value_Some is_blank_def join_Nil_iff split_ws_words split_ws_Nil_iff)
qed

section \<open>The records of \<^verbatim>\<open>read_inventory_csv\<close>\<close>

lemma or_default_nonempty: "dflt \<noteq> [] \<Longrightarrow> or_default dflt x \<noteq> []"
  by (simp add: or_default_def)

lemma strip_or_default:
  "strip dflt = dflt \<Longrightarrow> strip (or_default dflt (clean_value v)) = or_default dflt (clean_value v)"
  by (simp add: or_default_def strip_clean_value)

lemma strip_UNKNOWN: "strip ''UNKNOWN'' = ''UNKNOWN''"
  by (simp add: strip_def isspace_def)

text \<open>After the defaults the last filter of \<^verbatim>\<open>read_inventory_csv\<close> removes no row.\<close>

lemma any_value_clean_row: "any_value (clean_row raw)"
proof -
  have "strip ''Inventory'' = ''Inventory''"
    by (simp add: strip_def isspace_def)
  then have "strip (team (clean_row raw)) = team (clean_row raw)"
    by (simp add: clean_row_def strip_or_default)
  moreover have "team (clean_row raw) \<noteq> []"
    by (simp add: clean_row_def or_default_nonempty)
  ultimately have "strip (team (clean_row raw)) \<noteq> []" by simp
  then show ?thesis by (simp add: any_value_def row_values_def)
qed

lemma read_inventory_csv_Some: "read_inventory_csv (Some df) = Some (map clean_row df)"
proof -
  have "filter any_value (map clean_row df) = map clean_row df"
    by (simp add: any_value_clean_row)
  then show ?thesis by (simp add: read_inventory_csv_def)
qed

lemma record_is_clean_row:
  assumes "read_inventory_csv parsed = Some records" and "r \<in> set records"
  obtains raw where "r = clean_row raw"
proof (cases parsed)
  case None
  with assms show ?thesis by (simp add: read_inventory_csv_def)
next
  case (Some df)
  with assms have "r \<in> set (map clean_row df)" by (simp add: read_inventory_csv_Some)
  then show ?thesis using that by auto
qed

text \<open>
  C4, as the code has it. Every row of the frame gives a record. In a record the seven
  fields with a default (Team, Device model, S/N, MAC ID, Condition, Assigned to, Owner)
  are not empty, and a missing or whitespace-only cell gives the default of its field:
  \<^verbatim>\<open>Inventory\<close>, \<^verbatim>\<open>Unknown Device\<close>, \<^verbatim>\<open>UNKNOWN\<close>, \<^verbatim>\<open>UNKNOWN\<close>, \<^verbatim>\<open>Unknown\<close>,
  \<^verbatim>\<open>Unassigned\<close>, \<^verbatim>\<open>Unassigned\<close>. The field Sl.no has no default: it is empty
  exactly when its cell is missing or whitespace-only.
\<close>

theorem cleaned_fields:
  "read_inventory_csv (Some df) = Some (map clean_row df)
   \<and> team (clean_row raw) \<noteq> [] \<and> (is_blank (team raw) \<longrightarrow> team (clean_row raw) = ''Inventory'')
   \<and> device_model (clean_row raw) \<noteq> []
   \<and> (is_blank (device_model raw) \<longrightarrow> device_model (clean_row raw) = ''Unknown Device'')
   \<and> s_n (clean_row raw) \<noteq> [] \<and> (is_blank (s_n raw) \<longrightarrow> s_n (clean_row raw) = ''UNKNOWN'')
   \<and> mac_id (clean_row raw) \<noteq> [] \<and> (is_blank (mac_id raw) \<longrightarrow> mac_id (clean_row raw) = ''UNKNOWN'')
   \<and> condition (clean_row raw) \<noteq> []
   \<and> (is_blank (condition raw) \<longrightarrow> condition (clean_row raw) = ''Unknown'')
   \<and> assigned_to (clean_row raw) \<noteq> []
   \<and> (is_blank (assigned_to raw) \<longrightarrow> assigned_to (clean_row raw) = ''Unassigned'')
   \<and> owner (clean_row raw) \<noteq> [] \<and> (is_blank (owner raw) \<longrightarrow> owner (clean_row raw) = ''Unassigned'')
   \<and> (sl_no (clean_row raw) = [] \<longleftrightarrow> is_blank (sl_no raw))"
  by (simp add: read_inventory_csv_Some clean_row_def or_default_def clean_value_Nil_iff)

text \<open>A row whose cells are missing or blank but for Sl.no: every default is applied.\<close>

theorem cleaned_fields_witness:
  "read_inventory_csv
     (Some [\<lparr>sl_no = Some ''7'', team = None, device_model = Some '' '', s_n = None,
             mac_id = None, condition = None, assigned_to = None, owner = None\<rparr>])
   = Some [\<lparr>sl_no = ''7'', team = ''Inventory'', device_model = ''Unknown Device'',
            s_n = ''UNKNOWN'', mac_id = ''UNKNOWN'', condition = ''Unknown'',
            assigned_to = ''Unassigned'', owner = ''Unassigned''\<rparr>]"
proof -
  let ?raw = "\<lparr>sl_no = Some ''7'', team = None, device_model = Some '' '', s_n = None,
             mac_id = None, condition = None, assigned_to = None, owner = (None :: cell)\<rparr>"
  have b: "is_blank None" "is_blank (Some '' '')" "\<not> is_blank (Some ''7'')"
    by (simp_all add: is_blank_def isspace_def)
  have s: "sl_no (clean_row ?raw) = ''7''"
    by (simp add: clean_row_def clean_value_Some isspace_def)
  have "clean_row ?raw = \<lparr>sl_no = ''7'', team = ''Inventory'', device_model = ''Unknown Device'',
            s_n = ''UNKNOWN'', mac_id = ''UNKNOWN'', condition = ''Unknown'',
            assigned_to = ''Unassigned'', owner = ''Unassigned''\<rparr>"
    using cleaned_fields [of "[?raw]" ?raw] b s
    by (intro inventory_row.equality) simp_all
  then show ?thesis using cleaned_fields [of "[?raw]" ?raw] by simp
qed

text \<open>
  C4 as stated fails: a row with a missing Sl.no cell survives cleaning, and its Sl.no
  field is the empty string.
\<close>

theorem sl_no_empty_counterexample:
  "read_inventory_csv
     (Some [\<lparr>sl_no = None, team = Some ''Net'', device_model = Some ''Router'',
             s_n = Some ''ABC12345'', mac_id = Some ''AA:BB:CC:DD:EE:FF'',
             condition = Some ''Good'', assigned_to = Some ''Lab'', owner = Some ''Ann''\<rparr>])
   = Some [\<lparr>sl_no = [], team = ''Net'', device_model = ''Router'',
            s_n = ''ABC12345'', mac_id = ''AA:BB:CC:DD:EE:FF'',
            condition = ''Good'', assigned_to = ''Lab'', owner = ''Ann''\<rparr>]"
  by (simp add: read_inventory_csv_def any_value_def row_values_def clean_row_def
      clean_value_def or_default_def strip_def isspace_def)

section \<open>Identifiers\<close>

text \<open>
  C1. For every record of \<^verbatim>\<open>read_inventory_csv\<close> whose serial number is not empty and
  not \<^verbatim>\<open>UNKNOWN\<close>, the identifier is \<^verbatim>\<open>SN\<close> followed by the last 4 characters of
  the serial number, whatever the MAC is, and the counter is left alone; a serial number
  of fewer than 4 characters is taken whole. (The function strips the serial number
  first, which changes nothing on a cleaned one; on any serial number that is not empty
  and not \<^verbatim>\<open>UNKNOWN\<close> it takes the last 4 characters of the stripped one.) The serial
  number \<^verbatim>\<open>ABC12345\<close> with the MAC \<^verbatim>\<open>AA:BB:CC:DD:EE:FF\<close> gives \<^verbatim>\<open>SN2345\<close>.
\<close>

theorem serial_identifier:
  assumes "read_inventory_csv parsed = Some records" and "r \<in> set records"
    and "s_n r \<noteq> []" and "s_n r \<noteq> ''UNKNOWN''"
  shows "generate_identifier (s_n r) mac self = (''SN'' @ last_chars 4 (s_n r), self)
      \<and> (length (s_n r) < 4 \<longrightarrow> last_chars 4 (s_n r) = s_n r)
      \<and> generate_identifier ''ABC12345'' ''AA:BB:CC:DD:EE:FF'' self = (''SN2345'', self)
      \<and> (serial \<noteq> [] \<and> serial \<noteq> ''UNKNOWN'' \<longrightarrow>
           generate_identifier serial mac self = (''SN'' @ last_chars 4 (strip serial), self))"
proof -
  from assms(1,2) obtain raw where r: "r = clean_row raw" by (rule record_is_clean_row)
  have "strip (s_n r) = s_n r"
    by (simp add: r clean_row_def strip_or_default strip_UNKNOWN)
  then have 1: "generate_identifier (s_n r) mac self = (''SN'' @ last_chars 4 (s_n r), self)"
    using assms(3,4) by (simp add: generate_identifier_def)
  have 2: "length (s_n r) < 4 \<longrightarrow> last_chars 4 (s_n r) = s_n r"
    by (simp add: last_chars_def)
  have 3: "generate_identifier ''ABC12345'' ''AA:BB:CC:DD:EE:FF'' self = (''SN2345'', self)"
    by (simp add: generate_identifier_def last_chars_def strip_def isspace_def)
  have 4: "generate_identifier serial mac self = (''SN'' @ last_chars 4 (strip serial), self)"
    if "serial \<noteq> []" and "serial \<noteq> ''UNKNOWN''"
    using that by (simp add: generate_identifier_def)
  from 1 2 3 4 show ?thesis by simp
qed

theorem serial_identifier_witness:
  "read_inventory_csv
     (Some [\<lparr>sl_no = Some ''1'', team = Some ''Net'', device_model = Some ''Router'',
             s_n = Some '' ABC12345'', mac_id = Some ''AA:BB:CC:DD:EE:FF'', condition = None,
             assigned_to = Some ''  '', owner = Some ''Ann  Lee''\<rparr>])
   = Some [\<lparr>sl_no = ''1'', team = ''Net'', device_model = ''Router'',
            s_n = ''ABC12345'', mac_id = ''AA:BB:CC:DD:EE:FF'', condition = ''Unknown'',
            assigned_to = ''Unassigned'', owner = ''Ann Lee''\<rparr>]
   \<and> generate_identifier ''ABC12345'' ''AA:BB:CC:DD:EE:FF'' init_manager = (''SN2345'', init_manager)
   \<and> generate_identifier ''ABC12345'' ''UNKNOWN'' init_manager = (''SN2345'', init_manager)"
proof -
  let ?raw = "\<lparr>sl_no = Some ''1'', team = Some ''Net'', device_model = Some ''Router'',
             s_n = Some '' ABC12345'', mac_id = Some ''AA:BB:CC:DD:EE:FF'', condition = None,
             assigned_to = Some ''  '', owner = Some ''Ann  Lee''\<rparr>"
  let ?rec = "\<lparr>sl_no = ''1'', team = ''Net'', device_model = ''Router'',
            s_n = ''ABC12345'', mac_id = ''AA:BB:CC:DD:EE:FF'', condition = ''Unknown'',
            assigned_to = ''Unassigned'', owner = ''Ann Lee''\<rparr>"
  have h: "read_inventory_csv (Some [?raw]) = Some [?rec]"
    by (simp add: read_inventory_csv_def any_value_def row_values_def clean_row_def
      clean_value_def or_default_def strip_def isspace_def)
  have m: "?rec \<in> set [?rec]" by simp
  have "last_chars 4 ''ABC12345'' = ''2345''" by (simp add: last_chars_def)
  then show ?thesis
    using h serial_identifier [OF h m, of "''AA:BB:CC:DD:EE:FF''" init_manager "''ABC12345''"]
      serial_identifier [OF h m, of "''UNKNOWN''" init_manager "''ABC12345''"]
    by simp
qed

text \<open>
  C3, as the code has it. With the serial number \<^verbatim>\<open>UNKNOWN\<close> and the MAC
  \<^verbatim>\<open>AA:BB:CC:DD:EE:FF\<close> the identifier is \<^verbatim>\<open>MC\<close> followed by the last 4 characters
  of the MAC as it is written, colon included: \<^verbatim>\<open>MCE:FF\<close>. The counter is left alone.
\<close>

theorem mac_identifier_example:
  "generate_identifier ''UNKNOWN'' ''AA:BB:CC:DD:EE:FF'' self = (''MCE:FF'', self)"
  by (simp add: generate_identifier_def last_chars_def strip_def isspace_def)

theorem mac_identifier_example_witness:
  "generate_identifier ''UNKNOWN'' ''AA:BB:CC:DD:EE:FF'' init_manager = (''MCE:FF'', init_manager)"
  using mac_identifier_example [of init_manager] by simp

text \<open>C3 as stated fails: the identifier is not \<^verbatim>\<open>MCEEFF\<close>.\<close>

theorem mac_identifier_counterexample:
  "fst (generate_identifier ''UNKNOWN'' ''AA:BB:CC:DD:EE:FF'' init_manager) \<noteq> ''MCEEFF''"
  by (simp add: generate_identifier_def last_chars_def strip_def isspace_def)

section \<open>Decimal numerals\<close>

declare str_nat.simps [simp del]

lemma digit_value_digit_char: "d < 10 \<Longrightarrow> digit_value (digit_char d) = d"
proof -
  assume "d < 10"
  then consider "d = 0" | "d = 1" | "d = 2" | "d = 3" | "d = 4" | "d = 5" | "d = 6" | "d = 7"
    | "d = 8" | "d = 9"
    by atomize_elim arith
  then show ?thesis
    by cases (simp_all add: digit_value_def digit_char_def)
qed

lemma digit_char_in_digits: "d < 10 \<Longrightarrow> digit_char d \<in> set ''0123456789''"
  unfolding digit_char_def by (rule nth_mem) simp

lemma decimal_value_snoc: "decimal_value (s @ [c]) = 10 * decimal_value s + digit_value c"
  by (simp add: decimal_value_def)

lemma decimal_value_str_nat: "decimal_value (str_nat n) = n"
proof (induction n rule: str_nat.induct)
  case (1 n)
  show ?case
  proof (cases "n < 10")
    case True
    then show ?thesis
      by (subst str_nat.simps) (simp add: decimal_value_def digit_value_digit_char)
  next
    case False
    with 1 have "decimal_value (str_nat (n div 10)) = n div 10" by simp
    with False show ?thesis
      by (subst str_nat.simps) (simp add: decimal_value_snoc digit_value_digit_char)
  qed
qed

lemma str_nat_digits: "set (str_nat n) \<subseteq> set ''0123456789''"
proof (induction n rule: str_nat.induct)
  case (1 n)
  show ?case
  proof (cases "n < 10")
    case True
    then show ?thesis
      using digit_char_in_digits [of n] by (subst str_nat.simps) simp
  next
    case False
    with 1 have "set (str_nat (n div 10)) \<subseteq> set ''0123456789''" by simp
    moreover have "digit_char (n mod 10) \<in> set ''0123456789''"
      by (rule digit_char_in_digits) simp
    ultimately show ?thesis
      using False by (subst str_nat.simps) simp
  qed
qed

lemma str_nat_not_Nil: "str_nat n \<noteq> []"
  by (subst str_nat.simps) simp

lemma zfill_str_nat:
  "zfill w (str_nat n) = replicate (w - length (str_nat n)) CHR ''0'' @ str_nat n"
proof (cases "str_nat n")
  case Nil
  then show ?thesis by (simp add: str_nat_not_Nil)
next
  case (Cons c cs)
  then have "c \<in> set ''0123456789''" using str_nat_digits [of n] by simp
  then have "c \<noteq> CHR ''+''" and "c \<noteq> CHR ''-''" by auto
  then show ?thesis using Cons by (simp add: zfill_def)
qed

lemma decimal_value_zeros: "decimal_value (replicate k CHR ''0'' @ s) = decimal_value s"
proof -
  have "foldl (\<lambda>a c. 10 * a + digit_value c) 0 (replicate k CHR ''0'') = 0"
    by (induction k) (simp_all add: digit_value_def)
  then show ?thesis by (simp add: decimal_value_def)
qed

lemma decimal_value_zfill: "0 \<le> i \<Longrightarrow> decimal_value (zfill w (py_str i)) = nat i"
  by (simp add: py_str_def zfill_str_nat decimal_value_zeros decimal_value_str_nat)

lemma zfill_py_str_inj:
  assumes "0 \<le> a" and "0 \<le> b" and "zfill w (py_str a) = zfill w (py_str b)"
  shows "a = b"
proof -
  from assms(3) have "decimal_value (zfill w (py_str a)) = decimal_value (zfill w (py_str b))"
    by simp
  with assms(1,2) show ?thesis by (simp add: decimal_value_zfill)
qed

section \<open>Hostname allocation\<close>

lemma fst_generate_unique_hostname:
  "fst (generate_unique_hostname b self) =
     (case hostname_counters self b of None \<Rightarrow> b | Some c \<Rightarrow> b @ ''-'' @ py_str c)"
  by (simp add: generate_unique_hostname_def split: option.splits)

lemma hostname_counters_generate_unique_hostname:
  "hostname_counters (snd (generate_unique_hostname b self)) =
     (hostname_counters self)(b \<mapsto> (case hostname_counters self b of None \<Rightarrow> 1 | Some c \<Rightarrow> c + 1))"
  by (simp add: generate_unique_hostname_def split: option.splits)

lemma counter_generate_unique_hostname:
  "counter (snd (generate_unique_hostname b self)) = counter self"
  by (simp add: generate_unique_hostname_def split: option.splits)

lemma fst_allocate_all_Cons:
  "fst (allocate_all (b # bs) self) =
     fst (generate_unique_hostname b self) # fst (allocate_all bs (snd (generate_unique_hostname b self)))"
  by (simp add: case_prod_beta)

lemma allocate_all_nth:
  "k < length bs \<Longrightarrow>
   fst (allocate_all bs self) ! k =
     (case hostname_counters self (bs ! k) of
        None \<Rightarrow> if count_list (take k bs) (bs ! k) = 0 then bs ! k
                else bs ! k @ ''-'' @ py_str (int (count_list (take k bs) (bs ! k)))
      | Some c \<Rightarrow> bs ! k @ ''-'' @ py_str (c + int (count_list (take k bs) (bs ! k))))"
proof (induction bs arbitrary: self k)
  case Nil
  then show ?case by simp
next
  case (Cons b bs)
  show ?case
  proof (cases k)
    case 0
    then show ?thesis
      by (simp add: fst_allocate_all_Cons fst_generate_unique_hostname del: allocate_all.simps
          split: option.splits)
  next
    case (Suc k')
    with Cons.prems have k': "k' < length bs" by simp
    show ?thesis
      using Cons.IH [OF k', of "snd (generate_unique_hostname b self)"]
      by (auto simp add: Suc fst_allocate_all_Cons hostname_counters_generate_unique_hostname
          add.assoc simp del: allocate_all.simps split: option.splits if_splits)
  qed
qed

text \<open>
  C5. In a run (a sequence of requests on a new manager) the request number \<open>k\<close>, when
  it is the \<open>n\<close>-th request for its base hostname \<open>b\<close>, returns \<open>b\<close> when \<open>n = 1\<close>
  and \<open>b\<close> followed by \<^verbatim>\<open>-\<close> and the decimal \<open>n - 1\<close> otherwise, whatever requests for
  other bases come in between. Two requests for \<^verbatim>\<open>Router-SN1234\<close> return
  \<^verbatim>\<open>Router-SN1234\<close> and \<^verbatim>\<open>Router-SN1234-1\<close>.
\<close>

theorem nth_allocation:
  "(k < length bs \<longrightarrow>
      fst (allocate_all bs init_manager) ! k =
        (if count_list (take (Suc k) bs) (bs ! k) = 1 then bs ! k
         else bs ! k @ ''-'' @ py_str (int (count_list (take (Suc k) bs) (bs ! k)) - 1)))
   \<and> fst (allocate_all [''Router-SN1234'', ''Router-SN1234''] init_manager)
       = [''Router-SN1234'', ''Router-SN1234-1'']"
proof -
  have c: "count_list (take (Suc k) bs) (bs ! k) = Suc (count_list (take k bs) (bs ! k))"
    if "k < length bs"
    using that by (simp add: take_Suc_conv_app_nth)
  have 1: "fst (allocate_all bs init_manager) ! k =
        (if count_list (take (Suc k) bs) (bs ! k) = 1 then bs ! k
         else bs ! k @ ''-'' @ py_str (int (count_list (take (Suc k) bs) (bs ! k)) - 1))"
    if "k < length bs"
    using that by (simp add: allocate_all_nth c init_manager_def)
  have 2: "fst (allocate_all [''Router-SN1234'', ''Router-SN1234''] init_manager)
       = [''Router-SN1234'', ''Router-SN1234-1'']"
    by (simp add: generate_unique_hostname_def init_manager_def py_str_def str_nat.simps digit_char_def)
  from 1 2 show ?thesis by simp
qed

theorem nth_allocation_witness:
  "fst (allocate_all [''a'', ''b'', ''a'', ''a''] init_manager) ! 3 = ''a-2''"
proof -
  have "count_list (take (Suc 3) [''a'', ''b'', ''a'', ''a'']) ([''a'', ''b'', ''a'', ''a''] ! 3) = 3"
    by (simp add: eval_nat_numeral)
  moreover have "py_str 2 = ''2''"
    by (simp add: py_str_def str_nat.simps digit_char_def)
  ultimately show ?thesis
    using nth_allocation [of 3 "[''a'', ''b'', ''a'', ''a'']"] by simp
qed

text \<open>
  C2 fails on the code. The requests \<^verbatim>\<open>X\<close>, \<^verbatim>\<open>X\<close>, \<^verbatim>\<open>X-1\<close> return \<^verbatim>\<open>X\<close>, \<^verbatim>\<open>X-1\<close>,
  \<^verbatim>\<open>X-1\<close>: the suffixed name given to the second request is the third request's own
  base, which the registry has not seen. Records reach this: the device model \<^verbatim>\<open>R\<close> with
  the serial numbers \<^verbatim>\<open>12\<close>, \<^verbatim>\<open>12\<close>, \<^verbatim>\<open>12-1\<close> gets the hostnames \<^verbatim>\<open>R-SN12\<close>,
  \<^verbatim>\<open>R-SN12-1\<close>, \<^verbatim>\<open>R-SN12-1\<close>.
\<close>

theorem hostname_collision:
  "fst (allocate_all [''X'', ''X'', ''X-1''] init_manager) = [''X'', ''X-1'', ''X-1'']
   \<and> (let r1 = \<lparr>sl_no = ''1'', team = ''Net'', device_model = ''R'', s_n = ''12'',
                  mac_id = ''UNKNOWN'', condition = ''Good'', assigned_to = ''Lab'', owner = ''Ann''\<rparr>;
            r3 = r1\<lparr>sl_no := ''3'', s_n := ''12-1''\<rparr>;
            (h1, self1) = assign_hostname r1 init_manager;
            (h2, self2) = assign_hostname r1 self1;
            (h3, self3) = assign_hostname r3 self2
        in [h1, h2, h3]) = [''R-SN12'', ''R-SN12-1'', ''R-SN12-1'']"
proof -
  have p: "py_str 1 = ''1''"
    by (simp add: py_str_def str_nat.simps digit_char_def)
  have 1: "fst (allocate_all [''X'', ''X'', ''X-1''] init_manager) = [''X'', ''X-1'', ''X-1'']"
    by (simp add: generate_unique_hostname_def init_manager_def p)
  have i1: "generate_identifier ''12'' ''UNKNOWN'' self = (''SN12'', self)" for self
    by (simp add: generate_identifier_def last_chars_def strip_def isspace_def)
  have i3: "generate_identifier ''12-1'' ''UNKNOWN'' self = (''SN12-1'', self)" for self
    by (simp add: generate_identifier_def last_chars_def strip_def isspace_def)
  have b1: "base_hostname_of ''R'' ''SN12'' = ''R-SN12''"
    by (simp add: base_hostname_of_def isalnum_def)
  have b3: "base_hostname_of ''R'' ''SN12-1'' = ''R-SN12-1''"
    by (simp add: base_hostname_of_def isalnum_def)
  have 2: "(let r1 = \<lparr>sl_no = ''1'', team = ''Net'', device_model = ''R'', s_n = ''12'',
                  mac_id = ''UNKNOWN'', condition = ''Good'', assigned_to = ''Lab'', owner = ''Ann''\<rparr>;
            r3 = r1\<lparr>sl_no := ''3'', s_n := ''12-1''\<rparr>;
            (h1, self1) = assign_hostname r1 init_manager;
            (h2, self2) = assign_hostname r1 self1;
            (h3, self3) = assign_hostname r3 self2
        in [h1, h2, h3]) = [''R-SN12'', ''R-SN12-1'', ''R-SN12-1'']"
    by (simp add: assign_hostname_def i1 i3 b1 b3 generate_unique_hostname_def
        init_manager_def p)
  from 1 2 show ?thesis by (rule conjI)
qed

theorem hostname_collision_witness:
  "\<not> distinct (fst (allocate_all [''X'', ''X'', ''X-1''] init_manager))"
  using hostname_collision by simp

section \<open>Fallback identifiers\<close>

lemma generate_identifier_fallback:
  "lacks_serial_and_mac (serial, mac) \<Longrightarrow>
   generate_identifier serial mac self =
     (''DEV'' @ zfill 4 (py_str (counter self)), self\<lparr>counter := counter self + 1\<rparr>)"
  by (auto simp: lacks_serial_and_mac_def generate_identifier_def)

lemma generate_identifier_other:
  "\<not> lacks_serial_and_mac (serial, mac) \<Longrightarrow> snd (generate_identifier serial mac self) = self"
  by (auto simp: lacks_serial_and_mac_def generate_identifier_def)

lemma counter_generate_identifier:
  "counter (snd (generate_identifier serial mac self)) =
     counter self + (if lacks_serial_and_mac (serial, mac) then 1 else 0)"
  by (simp add: generate_identifier_fallback generate_identifier_other)

lemma hostname_counters_generate_identifier:
  "hostname_counters (snd (generate_identifier serial mac self)) = hostname_counters self"
  by (simp add: generate_identifier_def)

lemma identify_all_Cons:
  "identify_all (p # rest) self =
     (fst (generate_identifier (fst p) (snd p) self)
        # fst (identify_all rest (snd (generate_identifier (fst p) (snd p) self))),
      snd (identify_all rest (snd (generate_identifier (fst p) (snd p) self))))"
  by (cases p) (simp add: case_prod_beta)

lemma counter_identify_all:
  "counter (snd (identify_all reqs self)) =
     counter self + int (length (filter lacks_serial_and_mac reqs))"
proof (induction reqs arbitrary: self)
  case Nil
  show ?case by simp
next
  case (Cons p reqs)
  show ?case
    by (cases p) (simp add: identify_all_Cons Cons.IH counter_generate_identifier
        del: identify_all.simps)
qed

lemma identify_all_nth:
  "i < length reqs \<Longrightarrow> lacks_serial_and_mac (reqs ! i) \<Longrightarrow>
   fst (identify_all reqs self) ! i =
     ''DEV'' @ zfill 4 (py_str (counter self + int (length (filter lacks_serial_and_mac (take i reqs)))))"
proof (induction reqs arbitrary: self i)
  case Nil
  then show ?case by simp
next
  case (Cons p reqs)
  obtain serial mac where p: "p = (serial, mac)" by (cases p)
  show ?case
  proof (cases i)
    case 0
    with Cons.prems show ?thesis
      by (simp add: p identify_all_Cons generate_identifier_fallback del: identify_all.simps)
  next
    case (Suc i')
    with Cons.prems have i': "i' < length reqs" and l: "lacks_serial_and_mac (reqs ! i')"
      by simp_all
    show ?thesis
      using Cons.IH [OF i' l, of "snd (generate_identifier serial mac self)"]
      by (simp add: Suc p identify_all_Cons counter_generate_identifier add.assoc
          del: identify_all.simps)
  qed
qed

lemma filter_take_less:
  assumes "i < j" and "j \<le> length xs" and "P (xs ! i)"
  shows "length (filter P (take i xs)) < length (filter P (take j xs))"
proof -
  have "take j xs = take i xs @ (xs ! i) # drop (Suc i) (take j xs)"
  proof -
    have "i < length (take j xs)" using assms by simp
    then have "take j xs = take i (take j xs) @ (take j xs ! i) # drop (Suc i) (take j xs)"
      by (rule id_take_nth_drop)
    then show ?thesis using assms by (simp add: min_def)
  qed
  then have "filter P (take j xs) =
      filter P (take i xs) @ filter P ((xs ! i) # drop (Suc i) (take j xs))"
    by (metis filter_append)
  then show ?thesis using assms(3) by simp
qed

text \<open>
  C6. With neither a serial number nor a MAC (each empty or \<^verbatim>\<open>UNKNOWN\<close>) the identifier
  is \<^verbatim>\<open>DEV\<close> followed by the counter filled with zeros to 4 digits, and the counter is
  then one more. No call lowers the counter. In a run (a sequence of calls on a new
  manager) two such calls in a row give \<^verbatim>\<open>DEV0001\<close> and \<^verbatim>\<open>DEV0002\<close>; the counter ends
  at 1 plus the number of such calls; the call number \<open>i\<close>, when it is such a call, gets
  the number 1 plus the count of such calls before it; and two such calls get different
  identifiers.
\<close>

theorem fallback_identifiers:
  "(lacks_serial_and_mac (serial, mac) \<longrightarrow>
      generate_identifier serial mac self =
        (''DEV'' @ zfill 4 (py_str (counter self)), self\<lparr>counter := counter self + 1\<rparr>))
   \<and> counter self \<le> counter (snd (generate_identifier serial mac self))
   \<and> fst (identify_all [(''UNKNOWN'', ''UNKNOWN''), (''UNKNOWN'', ''UNKNOWN'')] init_manager)
       = [''DEV0001'', ''DEV0002'']
   \<and> counter (snd (identify_all reqs init_manager))
       = 1 + int (length (filter lacks_serial_and_mac reqs))
   \<and> (i < length reqs \<and> lacks_serial_and_mac (reqs ! i) \<longrightarrow>
        fst (identify_all reqs init_manager) ! i =
          ''DEV'' @ zfill 4 (py_str (1 + int (length (filter lacks_serial_and_mac (take i reqs))))))
   \<and> (i < j \<and> j < length reqs \<and> lacks_serial_and_mac (reqs ! i) \<and> lacks_serial_and_mac (reqs ! j)
        \<longrightarrow> fst (identify_all reqs init_manager) ! i \<noteq> fst (identify_all reqs init_manager) ! j)"
proof -
  have 1: "counter self \<le> counter (snd (generate_identifier serial mac self))"
    by (simp add: counter_generate_identifier)
  have 5: "fst (identify_all reqs init_manager) ! i =
          ''DEV'' @ zfill 4 (py_str (1 + int (length (filter lacks_serial_and_mac (take i reqs)))))"
    if "i < length reqs" and "lacks_serial_and_mac (reqs ! i)"
    using that by (simp add: identify_all_nth init_manager_def)
  have 2: "fst (identify_all [(''UNKNOWN'', ''UNKNOWN''), (''UNKNOWN'', ''UNKNOWN'')] init_manager)
       = [''DEV0001'', ''DEV0002'']"
    by (simp add: generate_identifier_def init_manager_def zfill_def py_str_def str_nat.simps
        digit_char_def eval_nat_numeral)
  have 3: "counter (snd (identify_all reqs init_manager))
       = 1 + int (length (filter lacks_serial_and_mac reqs))"
    by (simp add: counter_identify_all init_manager_def)
  have 4: "fst (identify_all reqs init_manager) ! i \<noteq> fst (identify_all reqs init_manager) ! j"
    if ij: "i < j" and j: "j < length reqs" and li: "lacks_serial_and_mac (reqs ! i)"
      and lj: "lacks_serial_and_mac (reqs ! j)"
  proof
    let ?n = "\<lambda>k. 1 + int (length (filter lacks_serial_and_mac (take k reqs)))"
    assume "fst (identify_all reqs init_manager) ! i = fst (identify_all reqs init_manager) ! j"
    moreover have "i < length reqs" using ij j by simp
    ultimately have "zfill 4 (py_str (?n i)) = zfill 4 (py_str (?n j))"
      using j li lj by (simp add: identify_all_nth init_manager_def)
    then have "?n i = ?n j"
      by (intro zfill_py_str_inj [of _ _ 4]) simp_all
    moreover have "?n i < ?n j"
      using filter_take_less [of i j reqs lacks_serial_and_mac] ij j li by simp
    ultimately show False by simp
  qed
  from 1 2 3 4 5 show ?thesis by (simp add: generate_identifier_fallback)
qed

theorem fallback_identifiers_witness:
  "generate_identifier [] ''UNKNOWN'' init_manager
     = (''DEV0001'', init_manager\<lparr>counter := 2\<rparr>)
   \<and> fst (identify_all [(''UNKNOWN'', ''UNKNOWN''), (''ABC12345'', []), ([], [])] init_manager) ! 0
     \<noteq> fst (identify_all [(''UNKNOWN'', ''UNKNOWN''), (''ABC12345'', []), ([], [])] init_manager) ! 2"
proof -
  let ?reqs = "[(''UNKNOWN'', ''UNKNOWN''), (''ABC12345'', []), ([], [])]"
  note t = fallback_identifiers [of "[]" "''UNKNOWN''" init_manager ?reqs 0 2]
  have l: "lacks_serial_and_mac ([], ''UNKNOWN'')"
    by (simp add: lacks_serial_and_mac_def)
  have h: "(0::nat) < 2 \<and> 2 < length ?reqs \<and> lacks_serial_and_mac (?reqs ! 0)
      \<and> lacks_serial_and_mac (?reqs ! 2)"
    by (simp add: lacks_serial_and_mac_def)
  have z: "zfill 4 (py_str (counter init_manager)) = ''0001''"
    by (simp add: init_manager_def zfill_def py_str_def str_nat.simps digit_char_def
        eval_nat_numeral)
  have c: "counter init_manager + 1 = 2"
    by (simp add: init_manager_def)
  from t l have "generate_identifier [] ''UNKNOWN'' init_manager =
      (''DEV'' @ zfill 4 (py_str (counter init_manager)),
       init_manager\<lparr>counter := counter init_manager + 1\<rparr>)"
    by blast
  then have a: "generate_identifier [] ''UNKNOWN'' init_manager
     = (''DEV0001'', init_manager\<lparr>counter := 2\<rparr>)"
    by (simp add: z c)
  from t h have b: "fst (identify_all ?reqs init_manager) ! 0
     \<noteq> fst (identify_all ?reqs init_manager) ! 2"
    by blast
  from a b show ?thesis by (rule conjI)
qed

section \<open>The rows of \<^verbatim>\<open>clean_csv\<close>\<close>

lemma strip_Nil_iff: "strip s = [] \<longleftrightarrow> list_all isspace s"
proof
  assume "strip s = []"
  then have "\<forall>x\<in>set (dropWhile isspace s). isspace x"
    by (simp add: strip_def dropWhile_eq_Nil_conv)
  then have "dropWhile isspace s = []"
    using hd_dropWhile [of isspace s] by (cases "dropWhile isspace s") auto
  then show "list_all isspace s"
    by (simp add: dropWhile_eq_Nil_conv list_all_iff)
next
  assume "list_all isspace s"
  then have e: "dropWhile isspace s = []"
    by (simp add: dropWhile_eq_Nil_conv list_all_iff)
  show "strip s = []" unfolding strip_def e by simp
qed

lemma any_cell_iff: "any_cell row \<longleftrightarrow> \<not> list_all (list_all isspace) row"
  by (simp add: any_cell_def list_ex_iff list_all_iff strip_Nil_iff)

lemma cleaned_rows_append: "cleaned_rows (xs @ ys) = cleaned_rows xs @ cleaned_rows ys"
  by (induction xs) simp_all

lemma cleaned_rows_eq: "cleaned_rows rows = map (\<lambda>row. take 8 (map strip row)) (filter any_cell rows)"
  by (induction rows) simp_all

text \<open>
  C7. A row whose cells are all empty or whitespace-only (a row with no cell too) is
  dropped by \<^verbatim>\<open>clean_csv\<close>: the cleaned rows, and with them the header and the data of
  the frame, are those of the input without the row, wherever the row stands. The
  cleaned rows are the images of the rows that have a cell which is not blank, and such
  a row is not one of those.
\<close>

theorem blank_row_dropped:
  assumes "list_all (list_all isspace) row"
  shows "cleaned_rows (before @ row # after) = cleaned_rows (before @ after)
       \<and> clean_csv (before @ row # after) = clean_csv (before @ after)
       \<and> cleaned_rows rows = map (\<lambda>row. take 8 (map strip row)) (filter any_cell rows)
       \<and> \<not> any_cell row"
proof -
  from assms have n: "\<not> any_cell row" by (simp add: any_cell_iff)
  then have "cleaned_rows (before @ row # after) = cleaned_rows (before @ after)"
    by (simp add: cleaned_rows_append)
  with n show ?thesis by (simp add: clean_csv_def cleaned_rows_eq)
qed

theorem blank_row_dropped_witness:
  "clean_csv [[''Sl.no'', ''Team'', ''Device model'', ''S/N'', ''MAC ID'', ''Condition'',
               ''Assigned to'', ''Owner''],
              [[], ''  '', [], [], [], [], [], [], [], []],
              [''1'', ''Net'', '' Router'', ''ABC12345'', [], ''Good'', ''Lab'', ''Ann'']]
   = Some \<lparr>columns = [''Sl.no'', ''Team'', ''Device model'', ''S/N'', ''MAC ID'', ''Condition'',
               ''Assigned to'', ''Owner''],
            data = [[Some ''1'', Some ''Net'', Some ''Router'', Some ''ABC12345'', Some [],
                     Some ''Good'', Some ''Lab'', Some ''Ann'']]\<rparr>"
proof -
  let ?h = "[''Sl.no'', ''Team'', ''Device model'', ''S/N'', ''MAC ID'', ''Condition'',
               ''Assigned to'', ''Owner'']"
  let ?d = "[''1'', ''Net'', '' Router'', ''ABC12345'', [], ''Good'', ''Lab'', ''Ann'']"
  let ?b = "[[], ''  '', [], [], [], [], [], [], [], []]"
  have b: "list_all (list_all isspace) ?b"
    by (simp add: isspace_def)
  have "clean_csv ([?h] @ ?b # [?d]) = clean_csv ([?h] @ [?d])"
    using blank_row_dropped [OF b, of "[?h]" "[?d]"] by blast
  moreover have "clean_csv [?h, ?d] = Some \<lparr>columns = ?h,
            data = [[Some ''1'', Some ''Net'', Some ''Router'', Some ''ABC12345'', Some [],
                     Some ''Good'', Some ''Lab'', Some ''Ann'']]\<rparr>"
    by (simp add: clean_csv_def any_cell_def strip_def isspace_def new_data_frame_def
        pad_row_def str_strip_def dropna_all_def)
  ultimately show ?thesis by simp
qed

section \<open>Cleaning a cleaned file\<close>

text \<open>
  C8 fails on the code. A row whose only cell that is not blank is the ninth passes the
  blank-row test, is cut to 8 empty strings, and stays in the frame: \<^verbatim>\<open>dropna(how='all')\<close>,
  under the comment \<^verbatim>\<open># Remove rows with all empty values\<close>, removes rows of missing
  cells only, and an empty string is not missing. The cleaned rows hold the row of 8
  empty strings, and cleaning them again drops it: the frame then has no data row. Read
  from the cleaned file, the row is a row of missing cells, of which
  \<^verbatim>\<open>read_inventory_csv\<close> makes a record of defaults.
\<close>

theorem empty_row_kept:
  "clean_csv [[''Sl.no'', ''Team'', ''Device model'', ''S/N'', ''MAC ID'', ''Condition'',
               ''Assigned to'', ''Owner''],
              [[], [], [], [], [], [], [], [], ''note'']]
     = Some \<lparr>columns = [''Sl.no'', ''Team'', ''Device model'', ''S/N'', ''MAC ID'',
                         ''Condition'', ''Assigned to'', ''Owner''],
              data = [[Some [], Some [], Some [], Some [], Some [], Some [], Some [], Some []]]\<rparr>
   \<and> cleaned_rows [[''Sl.no'', ''Team'', ''Device model'', ''S/N'', ''MAC ID'', ''Condition'',
                    ''Assigned to'', ''Owner''],
                   [[], [], [], [], [], [], [], [], ''note'']]
     = [[''Sl.no'', ''Team'', ''Device model'', ''S/N'', ''MAC ID'', ''Condition'',
         ''Assigned to'', ''Owner''],
        [[], [], [], [], [], [], [], []]]
   \<and> clean_csv [[''Sl.no'', ''Team'', ''Device model'', ''S/N'', ''MAC ID'', ''Condition'',
                 ''Assigned to'', ''Owner''],
                [[], [], [], [], [], [], [], []]]
     = Some \<lparr>columns = [''Sl.no'', ''Team'', ''Device model'', ''S/N'', ''MAC ID'',
                         ''Condition'', ''Assigned to'', ''Owner''],
              data = []\<rparr>
   \<and> read_inventory_csv
       (Some [\<lparr>sl_no = None, team = None, device_model = None, s_n = None, mac_id = None,
               condition = None, assigned_to = None, owner = None\<rparr>])
     = Some [\<lparr>sl_no = [], team = ''Inventory'', device_model = ''Unknown Device'',
              s_n = ''UNKNOWN'', mac_id = ''UNKNOWN'', condition = ''Unknown'',
              assigned_to = ''Unassigned'', owner = ''Unassigned''\<rparr>]"
proof -
  let ?h = "[''Sl.no'', ''Team'', ''Device model'', ''S/N'', ''MAC ID'', ''Condition'',
               ''Assigned to'', ''Owner'']"
  have 2: "cleaned_rows [?h, [[], [], [], [], [], [], [], [], ''note'']]
      = [?h, [[], [], [], [], [], [], [], []]]"
    by (simp add: any_cell_def strip_def isspace_def)
  have 3: "cleaned_rows [?h, [[], [], [], [], [], [], [], []]] = [?h]"
    by (simp add: any_cell_def strip_def isspace_def)
  have e: "strip [] = []"
    by (simp add: strip_def)
  have 1: "clean_csv [?h, [[], [], [], [], [], [], [], [], ''note'']]
      = Some \<lparr>columns = ?h,
          data = [[Some [], Some [], Some [], Some [], Some [], Some [], Some [], Some []]]\<rparr>"
    unfolding clean_csv_def 2
    by (simp add: new_data_frame_def pad_row_def str_strip_def dropna_all_def e)
  have 4: "clean_csv [?h, [[], [], [], [], [], [], [], []]] = Some \<lparr>columns = ?h, data = []\<rparr>"
    unfolding clean_csv_def 3
    by (simp add: new_data_frame_def str_strip_def dropna_all_def)
  have 5: "read_inventory_csv
       (Some [\<lparr>sl_no = None, team = None, device_model = None, s_n = None, mac_id = None,
               condition = None, assigned_to = None, owner = None\<rparr>])
     = Some [\<lparr>sl_no = [], team = ''Inventory'', device_model = ''Unknown Device'',
              s_n = ''UNKNOWN'', mac_id = ''UNKNOWN'', condition = ''Unknown'',
              assigned_to = ''Unassigned'', owner = ''Unassigned''\<rparr>]"
    by (simp add: read_inventory_csv_Some clean_row_def clean_value_def or_default_def)
  show ?thesis
    apply (intro conjI)
       apply (rule 1)
      apply (rule 2)
     apply (rule 4)
    apply (rule 5)
    done
qed

theorem empty_row_kept_witness:
  "clean_csv (cleaned_rows [[''Sl.no'', ''Team'', ''Device model'', ''S/N'', ''MAC ID'',
                             ''Condition'', ''Assigned to'', ''Owner''],
                            [[], [], [], [], [], [], [], [], ''note'']])
   \<noteq> clean_csv [[''Sl.no'', ''Team'', ''Device model'', ''S/N'', ''MAC ID'', ''Condition'',
                  ''Assigned to'', ''Owner''],
                 [[], [], [], [], [], [], [], [], ''note'']]"
proof -
  let ?h = "[''Sl.no'', ''Team'', ''Device model'', ''S/N'', ''MAC ID'', ''Condition'',
               ''Assigned to'', ''Owner'']"
  let ?x = "[?h, [[], [], [], [], [], [], [], [], ''note'']]"
  from empty_row_kept have 1: "clean_csv ?x = Some \<lparr>columns = ?h,
      data = [[Some [], Some [], Some [], Some [], Some [], Some [], Some [], Some []]]\<rparr>"
    by (rule conjunct1)
  from empty_row_kept have 2: "cleaned_rows ?x = [?h, [[], [], [], [], [], [], [], []]]"
    by (rule conjunct1 [OF conjunct2])
  from empty_row_kept
  have 3: "clean_csv [?h, [[], [], [], [], [], [], [], []]] = Some \<lparr>columns = ?h, data = []\<rparr>"
    by (rule conjunct1 [OF conjunct2 [OF conjunct2]])
  show ?thesis
    unfolding 2 3 1 by simp
qed

section \<open>The processing loop\<close>

lemma create_or_update_host_eq:
  "create_or_update_host row srv self = (submit_host srv, snd (assign_hostname row self))"
  by (simp add: create_or_update_host_def case_prod_beta)

lemma process_devices_counts:
  "process_devices recs self success failed = (success', failed', self') \<Longrightarrow>
   success' = success + int (length (filter (\<lambda>(row, srv). submit_host srv) recs))
   \<and> failed' = failed + int (length (filter (\<lambda>(row, srv). \<not> submit_host srv) recs))"
proof (induction recs arbitrary: self success failed)
  case Nil
  then show ?case by simp
next
  case (Cons p recs)
  obtain row srv where p: "p = (row, srv)" by (cases p)
  show ?case
  proof (cases "submit_host srv")
    case True
    with Cons.prems have "process_devices recs (snd (assign_hostname row self)) (success + 1) failed
        = (success', failed', self')"
      by (simp add: p create_or_update_host_eq)
    from Cons.IH [OF this] True show ?thesis by (simp add: p)
  next
    case False
    with Cons.prems have "process_devices recs (snd (assign_hostname row self)) success (failed + 1)
        = (success', failed', self')"
      by (simp add: p create_or_update_host_eq)
    from Cons.IH [OF this] False show ?thesis by (simp add: p)
  qed
qed

lemma filter_split_length:
  "length (filter P xs) + length (filter (\<lambda>x. \<not> P x) xs) = length xs"
  by (induction xs) simp_all

lemma filter_zip_map:
  "length xs = length ks \<Longrightarrow>
   length (filter (\<lambda>(x, y). P y) (zip xs (map f ks))) = length (filter (\<lambda>k. P (f k)) ks)"
  by (induction xs ks rule: list_induct2) simp_all

lemma filter_split_pairs:
  "length (filter (\<lambda>(row, srv). P srv) recs) + length (filter (\<lambda>(row, srv). \<not> P srv) recs)
     = length recs"
  by (induction recs) auto

lemma main_None_iff:
  "main rows auth_token parsed srvs = None \<longleftrightarrow>
     clean_csv rows = None \<or> auth_token = None \<or> auth_token = Some []
     \<or> read_inventory_csv parsed = None"
  by (simp add: main_def case_prod_beta split: option.splits)

lemma main_Some:
  assumes "main rows auth_token parsed srvs = Some s"
  obtains records where "read_inventory_csv parsed = Some records"
    and "total_count s = int (length records)"
    and "success_count s = int (length (filter (\<lambda>i. submit_host (srvs i)) [0..<length records]))"
    and "failed_count s = int (length (filter (\<lambda>i. \<not> submit_host (srvs i)) [0..<length records]))"
proof -
  from assms obtain records where r: "read_inventory_csv parsed = Some records"
    by (auto simp: main_def split: option.splits if_splits)
  let ?recs = "zip records (map srvs [0..<length records])"
  obtain success failed self' where p: "process_devices ?recs init_manager 0 0 = (success, failed, self')"
    by (cases "process_devices ?recs init_manager 0 0") auto
  from assms r p have s: "s = \<lparr>success_count = success, failed_count = failed,
      total_count = int (length records)\<rparr>"
    by (auto simp: main_def split: option.splits if_splits)
  from process_devices_counts [OF p]
  have "success = int (length (filter (\<lambda>i. submit_host (srvs i)) [0..<length records]))"
    and "failed = int (length (filter (\<lambda>i. \<not> submit_host (srvs i)) [0..<length records]))"
    by (simp_all add: filter_zip_map)
  with r s that show ?thesis by simp
qed

text \<open>The answers that make a record succeed, and those that make it fail.\<close>

lemma get_group_id_Some_iff:
  "get_group_id srv = Some g \<longleftrightarrow>
     (\<exists>rest. hostgroup_get srv = Result (g # rest))
     \<or> ((hostgroup_get srv = No_Result \<or> hostgroup_get srv = Result [])
         \<and> (\<exists>rest. hostgroup_create srv = Result (g # rest)))"
  by (auto simp: get_group_id_def create_group_def split: response.splits list.splits)

lemma submit_host_iff:
  "submit_host srv \<longleftrightarrow>
     (\<exists>g. g \<noteq> [] \<and> get_group_id srv = Some g) \<and> (\<exists>ids. host_create srv = Result ids)"
  by (auto simp: submit_host_def split: option.splits response.splits)

lemma submit_host_answers:
  "submit_host srv \<longleftrightarrow>
     (\<exists>g rest. g \<noteq> [] \<and>
        (hostgroup_get srv = Result (g # rest)
         \<or> (hostgroup_get srv = No_Result \<or> hostgroup_get srv = Result [])
            \<and> hostgroup_create srv = Result (g # rest)))
     \<and> (\<exists>ids. host_create srv = Result ids)"
  unfolding submit_host_iff get_group_id_Some_iff by blast

lemma group_lookup_fails:
  "hostgroup_get srv = Raises \<or> hostgroup_get srv = Status_Not_200 \<Longrightarrow> \<not> submit_host srv"
  unfolding submit_host_answers by auto

lemma group_create_fails:
  "hostgroup_get srv = No_Result \<or> hostgroup_get srv = Result [] \<Longrightarrow>
   hostgroup_create srv = Raises \<or> hostgroup_create srv = Status_Not_200
     \<or> hostgroup_create srv = No_Result \<or> hostgroup_create srv = Result [] \<Longrightarrow>
   \<not> submit_host srv"
  unfolding submit_host_answers by auto

lemma host_create_fails:
  "host_create srv = Raises \<or> host_create srv = Status_Not_200 \<or> host_create srv = No_Result \<Longrightarrow>
   \<not> submit_host srv"
  unfolding submit_host_answers by auto

text \<open>
  C9. \<^verbatim>\<open>create_or_update_host\<close> returns \<^verbatim>\<open>True\<close> exactly when the group is resolved
  to an identifier that is not empty (found by \<^verbatim>\<open>hostgroup.get\<close>, or created by
  \<^verbatim>\<open>hostgroup.create\<close> after a lookup without result) and \<^verbatim>\<open>host.create\<close> answers with
  a result. A group lookup that raises or has a status other than 200, a group creation
  that raises, has another status or no result, and a host creation that raises, has
  another status or no result, each give \<^verbatim>\<open>False\<close> for that record; nothing is
  raised, and the loop goes on. The loop counts the records whose requests succeed and
  those whose requests fail, and the two counts add up to the number of records.
  \<^verbatim>\<open>main\<close> returns without a summary only when the cleaning fails, the token is
  missing or the reading fails; otherwise its summary has total = number of records,
  failed = number of records whose requests fail, and success + failed = total.
\<close>

theorem per_record_failures:
  "fst (create_or_update_host row srv self) = submit_host srv
   \<and> (submit_host srv \<longleftrightarrow>
        (\<exists>group_id rest. group_id \<noteq> [] \<and>
           (hostgroup_get srv = Result (group_id # rest)
            \<or> (hostgroup_get srv = No_Result \<or> hostgroup_get srv = Result [])
               \<and> hostgroup_create srv = Result (group_id # rest)))
        \<and> (\<exists>ids. host_create srv = Result ids))
   \<and> (get_group_id srv = Some group_id \<longleftrightarrow>
        (\<exists>rest. hostgroup_get srv = Result (group_id # rest))
        \<or> ((hostgroup_get srv = No_Result \<or> hostgroup_get srv = Result [])
            \<and> (\<exists>rest. hostgroup_create srv = Result (group_id # rest))))
   \<and> (hostgroup_get srv = Raises \<or> hostgroup_get srv = Status_Not_200 \<longrightarrow>
        get_group_id srv = None \<and> \<not> fst (create_or_update_host row srv self))
   \<and> ((hostgroup_get srv = No_Result \<or> hostgroup_get srv = Result [])
        \<and> (hostgroup_create srv = Raises \<or> hostgroup_create srv = Status_Not_200
            \<or> hostgroup_create srv = No_Result \<or> hostgroup_create srv = Result []) \<longrightarrow>
        get_group_id srv = None \<and> \<not> fst (create_or_update_host row srv self))
   \<and> (host_create srv = Raises \<or> host_create srv = Status_Not_200
        \<or> host_create srv = No_Result \<longrightarrow>
        \<not> fst (create_or_update_host row srv self))
   \<and> (process_devices recs self 0 0 = (success, failed, self') \<longrightarrow>
        success = int (length (filter (\<lambda>(row, srv). submit_host srv) recs))
        \<and> failed = int (length (filter (\<lambda>(row, srv). \<not> submit_host srv) recs))
        \<and> success + failed = int (length recs))
   \<and> (main rows auth_token parsed srvs = None \<longleftrightarrow>
        clean_csv rows = None \<or> auth_token = None \<or> auth_token = Some []
        \<or> read_inventory_csv parsed = None)
   \<and> (main rows auth_token parsed srvs = Some s \<longrightarrow>
        (\<exists>records. read_inventory_csv parsed = Some records
           \<and> total_count s = int (length records)
           \<and> failed_count s
               = int (length (filter (\<lambda>i. \<not> submit_host (srvs i)) [0..<length records])))
        \<and> success_count s + failed_count s = total_count s)"
proof -
  have c1: "fst (create_or_update_host row srv self) = submit_host srv"
    by (simp add: create_or_update_host_eq)
  have c2: "submit_host srv \<longleftrightarrow>
        (\<exists>group_id rest. group_id \<noteq> [] \<and>
           (hostgroup_get srv = Result (group_id # rest)
            \<or> (hostgroup_get srv = No_Result \<or> hostgroup_get srv = Result [])
               \<and> hostgroup_create srv = Result (group_id # rest)))
        \<and> (\<exists>ids. host_create srv = Result ids)"
    by (rule submit_host_answers)
  have c3: "get_group_id srv = Some group_id \<longleftrightarrow>
        (\<exists>rest. hostgroup_get srv = Result (group_id # rest))
        \<or> ((hostgroup_get srv = No_Result \<or> hostgroup_get srv = Result [])
            \<and> (\<exists>rest. hostgroup_create srv = Result (group_id # rest)))"
    by (rule get_group_id_Some_iff)
  have c4: "hostgroup_get srv = Raises \<or> hostgroup_get srv = Status_Not_200 \<longrightarrow>
        get_group_id srv = None \<and> \<not> fst (create_or_update_host row srv self)"
  proof
    assume h: "hostgroup_get srv = Raises \<or> hostgroup_get srv = Status_Not_200"
    then have "get_group_id srv = None" by (auto simp: get_group_id_def)
    moreover from h have "\<not> submit_host srv" by (rule group_lookup_fails)
    ultimately show "get_group_id srv = None \<and> \<not> fst (create_or_update_host row srv self)"
      by (simp add: c1)
  qed
  have c5: "(hostgroup_get srv = No_Result \<or> hostgroup_get srv = Result [])
        \<and> (hostgroup_create srv = Raises \<or> hostgroup_create srv = Status_Not_200
            \<or> hostgroup_create srv = No_Result \<or> hostgroup_create srv = Result []) \<longrightarrow>
        get_group_id srv = None \<and> \<not> fst (create_or_update_host row srv self)"
  proof
    assume h: "(hostgroup_get srv = No_Result \<or> hostgroup_get srv = Result [])
        \<and> (hostgroup_create srv = Raises \<or> hostgroup_create srv = Status_Not_200
            \<or> hostgroup_create srv = No_Result \<or> hostgroup_create srv = Result [])"
    then have "get_group_id srv = None" by (auto simp: get_group_id_def create_group_def)
    moreover from h have "\<not> submit_host srv" by (intro group_create_fails) simp_all
    ultimately show "get_group_id srv = None \<and> \<not> fst (create_or_update_host row srv self)"
      by (simp add: c1)
  qed
  have c6: "host_create srv = Raises \<or> host_create srv = Status_Not_200
        \<or> host_create srv = No_Result \<longrightarrow>
        \<not> fst (create_or_update_host row srv self)"
    using host_create_fails [of srv] by (simp add: c1)
  have c7: "process_devices recs self 0 0 = (success, failed, self') \<longrightarrow>
        success = int (length (filter (\<lambda>(row, srv). submit_host srv) recs))
        \<and> failed = int (length (filter (\<lambda>(row, srv). \<not> submit_host srv) recs))
        \<and> success + failed = int (length recs)"
  proof
    assume p: "process_devices recs self 0 0 = (success, failed, self')"
    have "int (length (filter (\<lambda>(row, srv). submit_host srv) recs))
        + int (length (filter (\<lambda>(row, srv). \<not> submit_host srv) recs)) = int (length recs)"
      using filter_split_pairs [of submit_host recs] by (simp flip: of_nat_add)
    with process_devices_counts [OF p]
    show "success = int (length (filter (\<lambda>(row, srv). submit_host srv) recs))
        \<and> failed = int (length (filter (\<lambda>(row, srv). \<not> submit_host srv) recs))
        \<and> success + failed = int (length recs)"
      by simp
  qed
  have c8: "main rows auth_token parsed srvs = None \<longleftrightarrow>
        clean_csv rows = None \<or> auth_token = None \<or> auth_token = Some []
        \<or> read_inventory_csv parsed = None"
    by (rule main_None_iff)
  have c9: "main rows auth_token parsed srvs = Some s \<longrightarrow>
        (\<exists>records. read_inventory_csv parsed = Some records
           \<and> total_count s = int (length records)
           \<and> failed_count s
               = int (length (filter (\<lambda>i. \<not> submit_host (srvs i)) [0..<length records])))
        \<and> success_count s + failed_count s = total_count s"
  proof
    assume m: "main rows auth_token parsed srvs = Some s"
    from m obtain records where r: "read_inventory_csv parsed = Some records"
      and t: "total_count s = int (length records)"
      and sc: "success_count s = int (length (filter (\<lambda>i. submit_host (srvs i)) [0..<length records]))"
      and fc: "failed_count s = int (length (filter (\<lambda>i. \<not> submit_host (srvs i)) [0..<length records]))"
      by (rule main_Some)
    have "length (filter (\<lambda>i. submit_host (srvs i)) [0..<length records])
        + length (filter (\<lambda>i. \<not> submit_host (srvs i)) [0..<length records]) = length records"
      using filter_split_length [of "\<lambda>i. submit_host (srvs i)" "[0..<length records]"] by simp
    then have "success_count s + failed_count s = total_count s"
      by (simp add: t sc fc flip: of_nat_add)
    with r t fc
    show "(\<exists>records. read_inventory_csv parsed = Some records
           \<and> total_count s = int (length records)
           \<and> failed_count s
               = int (length (filter (\<lambda>i. \<not> submit_host (srvs i)) [0..<length records])))
        \<and> success_count s + failed_count s = total_count s"
      by blast
  qed
  show ?thesis
    apply (intro conjI)
            apply (rule c1)
           apply (rule c2)
          apply (rule c3)
         apply (rule c4)
        apply (rule c5)
       apply (rule c6)
      apply (rule c7)
     apply (rule c8)
    apply (rule c9)
    done
qed

text \<open>
  Four records: the group lookup raises; the host creation is refused; the group is
  created and the host too; the group can neither be found nor created.
\<close>

theorem per_record_failures_witness:
  "main [[''Sl.no'', ''Team'', ''Device model'', ''S/N'', ''MAC ID'', ''Condition'',
          ''Assigned to'', ''Owner''],
         [''1'', ''Net'', ''Router'', [], [], ''Good'', ''Lab'', ''Ann'']]
        (Some ''token'')
        (Some [\<lparr>sl_no = Some ''1'', team = Some ''Net'', device_model = Some ''Router'',
                 s_n = None, mac_id = None, condition = Some ''Good'',
                 assigned_to = Some ''Lab'', owner = Some ''Ann''\<rparr>,
               \<lparr>sl_no = Some ''2'', team = Some ''Net'', device_model = Some ''Router'',
                 s_n = None, mac_id = None, condition = Some ''Good'',
                 assigned_to = Some ''Lab'', owner = Some ''Bob''\<rparr>,
               \<lparr>sl_no = Some ''3'', team = Some ''Ops'', device_model = Some ''Switch'',
                 s_n = None, mac_id = None, condition = Some ''Good'',
                 assigned_to = Some ''Lab'', owner = Some ''Cy''\<rparr>,
               \<lparr>sl_no = Some ''4'', team = Some ''Ops'', device_model = Some ''Switch'',
                 s_n = None, mac_id = None, condition = Some ''Good'',
                 assigned_to = Some ''Lab'', owner = Some ''Di''\<rparr>])
        (\<lambda>i. [\<lparr>hostgroup_get = Raises, hostgroup_create = Raises, host_create = Raises\<rparr>,
              \<lparr>hostgroup_get = Result [''7''], hostgroup_create = No_Result,
                host_create = Status_Not_200\<rparr>,
              \<lparr>hostgroup_get = Result [], hostgroup_create = Result [''8''],
                host_create = Result [''101'']\<rparr>,
              \<lparr>hostgroup_get = No_Result, hostgroup_create = No_Result,
                host_create = Result [''102'']\<rparr>] ! i)
   = Some \<lparr>success_count = 1, failed_count = 3, total_count = 4\<rparr>"
proof -
  let ?rows = "[[''Sl.no'', ''Team'', ''Device model'', ''S/N'', ''MAC ID'', ''Condition'',
          ''Assigned to'', ''Owner''],
         [''1'', ''Net'', ''Router'', [], [], ''Good'', ''Lab'', ''Ann'']]"
  let ?a = "\<lparr>hostgroup_get = Raises, hostgroup_create = Raises, host_create = Raises\<rparr>"
  let ?b = "\<lparr>hostgroup_get = Result [''7''], hostgroup_create = No_Result,
                host_create = Status_Not_200\<rparr>"
  let ?c = "\<lparr>hostgroup_get = Result [], hostgroup_create = Result [''8''],
                host_create = Result [''101'']\<rparr>"
  let ?d = "\<lparr>hostgroup_get = No_Result, hostgroup_create = No_Result,
                host_create = Result [''102'']\<rparr>"
  have c: "clean_csv ?rows \<noteq> None"
    by (simp add: clean_csv_def any_cell_def strip_def isspace_def new_data_frame_def)
  have a: "\<not> submit_host ?a"
    using per_record_failures [of _ ?a init_manager] by simp
  have b: "\<not> submit_host ?b"
    using per_record_failures [of _ ?b init_manager] by simp
  have d: "\<not> submit_host ?d"
    using per_record_failures [of _ ?d init_manager] by simp
  have "submit_host ?c \<longleftrightarrow>
        (\<exists>group_id rest. group_id \<noteq> [] \<and>
           (hostgroup_get ?c = Result (group_id # rest)
            \<or> (hostgroup_get ?c = No_Result \<or> hostgroup_get ?c = Result [])
               \<and> hostgroup_create ?c = Result (group_id # rest)))
        \<and> (\<exists>ids. host_create ?c = Result ids)"
    using per_record_failures [of _ ?c init_manager] by blast
  then have s: "submit_host ?c" by simp
  show ?thesis
    using c a b d s
    by (auto simp add: main_def read_inventory_csv_Some create_or_update_host_eq)
qed

text \<open>
  C10. The state after \<^verbatim>\<open>create_or_update_host\<close> is the one left by the identifier
  and hostname steps, whatever the service answers, so also when the record fails: the
  counter is one more when the record has neither serial number nor MAC, and the base
  hostname holds its entry in the registry. A later request for the same base hostname
  gets a suffix, and a later record with neither serial number nor MAC gets the next
  number.
\<close>

theorem state_kept_on_failure:
  "(let (identifier, self1) = generate_identifier (s_n row) (mac_id row) self;
        base_hostname = base_hostname_of (device_model row) identifier;
        self' = snd (create_or_update_host row srv self)
    in self' = snd (generate_unique_hostname base_hostname self1)
       \<and> counter self' =
           counter self + (if lacks_serial_and_mac (s_n row, mac_id row) then 1 else 0)
       \<and> hostname_counters self' base_hostname =
           Some (case hostname_counters self base_hostname of None \<Rightarrow> 1 | Some c \<Rightarrow> c + 1)
       \<and> fst (generate_unique_hostname base_hostname self') =
           base_hostname @ ''-''
             @ py_str (case hostname_counters self base_hostname of None \<Rightarrow> 1 | Some c \<Rightarrow> c + 1)
       \<and> (lacks_serial_and_mac (s_n row, mac_id row) \<longrightarrow>
            fst (generate_identifier (s_n row) (mac_id row) self') =
              ''DEV'' @ zfill 4 (py_str (counter self + 1))))"
proof -
  obtain dev_id self1 where g: "generate_identifier (s_n row) (mac_id row) self = (dev_id, self1)"
    by (cases "generate_identifier (s_n row) (mac_id row) self") auto
  let ?b = "base_hostname_of (device_model row) dev_id"
  let ?self' = "snd (create_or_update_host row srv self)"
  have c1: "counter self1 = counter self + (if lacks_serial_and_mac (s_n row, mac_id row) then 1 else 0)"
    using counter_generate_identifier [of "s_n row" "mac_id row" self] by (simp add: g)
  have h1: "hostname_counters self1 = hostname_counters self"
    using hostname_counters_generate_identifier [of "s_n row" "mac_id row" self] by (simp add: g)
  have 1: "?self' = snd (generate_unique_hostname ?b self1)"
    by (simp add: create_or_update_host_eq assign_hostname_def g)
  have 2: "counter ?self' = counter self + (if lacks_serial_and_mac (s_n row, mac_id row) then 1 else 0)"
    by (simp only: 1 counter_generate_unique_hostname c1)
  have 3: "hostname_counters ?self' ?b =
      Some (case hostname_counters self ?b of None \<Rightarrow> 1 | Some c \<Rightarrow> c + 1)"
    by (simp add: 1 hostname_counters_generate_unique_hostname h1)
  have 4: "fst (generate_unique_hostname ?b ?self') =
      ?b @ ''-'' @ py_str (case hostname_counters self ?b of None \<Rightarrow> 1 | Some c \<Rightarrow> c + 1)"
    by (simp only: fst_generate_unique_hostname 3 option.case)
  have 5: "fst (generate_identifier (s_n row) (mac_id row) ?self') =
      ''DEV'' @ zfill 4 (py_str (counter self + 1))"
    if l: "lacks_serial_and_mac (s_n row, mac_id row)"
    using 2 l by (simp add: generate_identifier_fallback)
  from 1 2 3 4 5 show ?thesis by (simp add: g)
qed

text \<open>A record whose first request raises: it fails, and the state has moved on.\<close>

theorem state_kept_on_failure_witness:
  "create_or_update_host
     \<lparr>sl_no = ''1'', team = ''Net'', device_model = ''Core Router'', s_n = ''UNKNOWN'',
      mac_id = ''UNKNOWN'', condition = ''Good'', assigned_to = ''Lab'', owner = ''Ann''\<rparr>
     \<lparr>hostgroup_get = Raises, hostgroup_create = Raises, host_create = Raises\<rparr>
     init_manager
   = (False, \<lparr>counter = 2, hostname_counters = [''Core-Router-DEV0001'' \<mapsto> 1]\<rparr>)"
proof -
  let ?row = "\<lparr>sl_no = ''1'', team = ''Net'', device_model = ''Core Router'', s_n = ''UNKNOWN'',
      mac_id = ''UNKNOWN'', condition = ''Good'', assigned_to = ''Lab'', owner = ''Ann''\<rparr>"
  let ?bad = "\<lparr>hostgroup_get = Raises, hostgroup_create = Raises, host_create = Raises\<rparr>"
  note t = state_kept_on_failure [of ?row init_manager ?bad]
  have z: "zfill 4 (py_str 1) = ''0001''"
    by (simp add: zfill_def py_str_def str_nat.simps digit_char_def eval_nat_numeral)
  have g: "generate_identifier (s_n ?row) (mac_id ?row) init_manager
      = (''DEV0001'', \<lparr>counter = 2, hostname_counters = Map.empty\<rparr>)"
    by (simp add: generate_identifier_def init_manager_def z)
  have b: "base_hostname_of (device_model ?row) ''DEV0001'' = ''Core-Router-DEV0001''"
    by (simp add: base_hostname_of_def isalnum_def)
  have "snd (create_or_update_host ?row ?bad init_manager)
      = snd (generate_unique_hostname ''Core-Router-DEV0001''
               \<lparr>counter = 2, hostname_counters = Map.empty\<rparr>)"
    using t by (simp only: g b Let_def prod.case)
  then have "snd (create_or_update_host ?row ?bad init_manager)
      = \<lparr>counter = 2, hostname_counters = [''Core-Router-DEV0001'' \<mapsto> 1]\<rparr>"
    by (simp add: generate_unique_hostname_def)
  moreover have "fst (create_or_update_host ?row ?bad init_manager) = False"
    by (simp add: create_or_update_host_eq submit_host_def get_group_id_def)
  ultimately show ?thesis
    by (simp add: prod_eq_iff)
qed

end
